theory Spec2Isabelle
  imports Main
begin

section \<open>Python values and exceptions\<close>

text \<open>
  The class \<open>TimeSeries\<close> of \<open>u8timeseries/timeseries.py\<close> wraps a pandas Series with a
  DatetimeIndex. Every \<open>assert\<close>, every exception of the library calls the class makes
  and every attribute lookup that can fail is a branch of the model: a method returns
  \<open>error + 'a\<close>, with \<open>Inl\<close> the exception raised.
\<close>

datatype error =
    AssertionError string
  | AttributeError
  | ValueError
  | IndexError
  | KeyError
  | TypeError
  | OverflowError

definition bind_err :: "error + 'a \<Rightarrow> ('a \<Rightarrow> error + 'b) \<Rightarrow> error + 'b" where
  "bind_err m f = (case m of Inl e \<Rightarrow> Inl e | Inr x \<Rightarrow> f x)"

text \<open>\<open>assert b, msg\<close> for a Python \<open>bool\<close>: the AssertionError carries the message.\<close>

definition py_assert :: "bool \<Rightarrow> string \<Rightarrow> error + unit" where
  "py_assert b msg = (if b then Inr () else Inl (AssertionError msg))"

text \<open>
  The truth value of a numpy boolean array, which \<open>assert a\<close> takes when \<open>a\<close> is an
  array: an empty array is false, an array of one element has the truth value of that
  element, and any longer array raises ValueError ("The truth value of an array with more
  than one element is ambiguous").
\<close>

fun truth_value :: "bool list \<Rightarrow> error + bool" where
  "truth_value [] = Inr False"
| "truth_value [b] = Inr b"
| "truth_value (b # c # bs) = Inl ValueError"

definition py_assert_array :: "bool list \<Rightarrow> string \<Rightarrow> error + unit" where
  "py_assert_array a msg = bind_err (truth_value a) (\<lambda>b. py_assert b msg)"

section \<open>pandas: series, index comparison, frequency inference\<close>

text \<open>
  A timestamp is its number of nanoseconds since the epoch (the \<open>asi8\<close> view of a
  DatetimeIndex), a Timedelta a number of nanoseconds. A Series with a DatetimeIndex is
  the list of its (timestamp, value) rows in positional order.
\<close>

type_synonym timestamp = int
type_synonym timedelta = int
type_synonym 'v pd_series = "(timestamp \<times> 'v) list"

text \<open>
  Both are signed 64-bit numbers in the library, the least one standing for "not a
  time". The sum of a Timestamp and a Timedelta and the difference of two Timestamps are
  checked: a result outside the range raises (OverflowError, which later versions of the
  library report as an out-of-bounds error). The differences numpy takes of a whole
  array are not checked: they wrap around.
\<close>

definition in_int64 :: "int \<Rightarrow> bool" where
  "in_int64 x = (- (2 ^ 63) < x \<and> x < 2 ^ 63)"


definition timestamp_add :: "timestamp \<Rightarrow> timedelta \<Rightarrow> error + timestamp" where
  "timestamp_add t d = (if in_int64 (t + d) then Inr (t + d) else Inl OverflowError)"

definition timestamp_sub :: "timestamp \<Rightarrow> timestamp \<Rightarrow> error + timedelta" where
  "timestamp_sub a b = (if in_int64 (a - b) then Inr (a - b) else Inl OverflowError)"

definition wrap64 :: "int \<Rightarrow> int" where
  "wrap64 x = (x + 2 ^ 63) mod 2 ^ 64 - 2 ^ 63"

definition index :: "'v pd_series \<Rightarrow> timestamp list" where
  "index s = map fst s"

definition values_of :: "'v pd_series \<Rightarrow> 'v list" where
  "values_of s = map snd s"

definition sort_index :: "'v pd_series \<Rightarrow> 'v pd_series" where
  "sort_index s = sort_key fst s"

text \<open>
  \<open>a == b\<close> on two indexes is elementwise: it gives an array of booleans, one per
  position, and raises ValueError ("Lengths must match to compare") when the lengths
  differ.
\<close>

definition index_eq :: "timestamp list \<Rightarrow> timestamp list \<Rightarrow> error + bool list" where
  "index_eq a b =
     (if length a = length b then Inr (map (\<lambda>(x, y). x = y) (zip a b)) else Inl ValueError)"

text \<open>\<open>s[mask]\<close>: the rows of \<open>s\<close> at the positions where the boolean array holds.\<close>

definition mask_select :: "'v pd_series \<Rightarrow> bool list \<Rightarrow> 'v pd_series" where
  "mask_select s m = map fst (filter snd (zip s m))"

text \<open>
  Attribute lookup \<open>s.name\<close> on a Series, for the attributes that hold its index. The
  index of such a Series holds timestamps, so no other name resolves to a row label:
  the lookup of an unknown name raises AttributeError.
\<close>

definition series_getattr :: "'v pd_series \<Rightarrow> string \<Rightarrow> error + timestamp list" where
  "series_getattr s name = (if name = ''index'' then Inr (index s) else Inl AttributeError)"

subsection \<open>Frequency inference\<close>

text \<open>
  \<open>DatetimeIndex.inferred_freq\<close> gives a frequency string or None, and \<open>to_offset\<close>
  parses the string back into an offset. The model keeps the offset: a tick (a fixed
  number of nanoseconds: days, hours, minutes, ... with a count), a weekly offset
  anchored on a weekday (Monday is 0), or a calendar-anchored rule by the alias of its
  rule (the month or weekday a rule is anchored on is left out).

  The library's calendar rules (annual, quarterly and monthly rules, which it tries
  first when the smallest gap is a whole number of days; business days and week-of-month
  rules, which it tries when the gaps are not all equal) are a parameter of the
  inference; \<open>pandas_rules\<close> below are the rules of the library.
\<close>

datatype offset = Tick timedelta | Week int nat | Anchored string

record calendar_rules =
  period_rule :: "timestamp list \<Rightarrow> string option"
  business_rule :: "timestamp list \<Rightarrow> string option"

definition no_calendar_rules :: calendar_rules where
  "no_calendar_rules = \<lparr>period_rule = (\<lambda>ix. None), business_rule = (\<lambda>ix. None)\<rparr>"

definition ONE_MICRO :: timedelta where
  "ONE_MICRO = 1000"

definition ONE_MILLI :: timedelta where
  "ONE_MILLI = 1000 * ONE_MICRO"

definition ONE_SECOND :: timedelta where
  "ONE_SECOND = 1000 * ONE_MILLI"

definition ONE_MINUTE :: timedelta where
  "ONE_MINUTE = 60 * ONE_SECOND"

definition ONE_HOUR :: timedelta where
  "ONE_HOUR = 3600000000000"

definition ONE_DAY :: timedelta where
  "ONE_DAY = 24 * ONE_HOUR"

definition weekday :: "timestamp \<Rightarrow> nat" where
  "weekday t = nat ((t div ONE_DAY + 3) mod 7)"

text \<open>The consecutive gaps of an index, and the library's \<open>unique_deltas\<close>: the
  distinct 64-bit differences in ascending order.\<close>

definition gaps :: "timestamp list \<Rightarrow> timedelta list" where
  "gaps ix = map (\<lambda>(a, b). b - a) (zip ix (tl ix))"

definition unique_deltas :: "timestamp list \<Rightarrow> timedelta list" where
  "unique_deltas ix = sort (remdups (map wrap64 (gaps ix)))"

definition regular :: "timedelta \<Rightarrow> timestamp list \<Rightarrow> bool" where
  "regular d ix = list_all (\<lambda>g. g = d) (gaps ix)"

text \<open>
  A tick is written into the frequency string as a count of the largest unit that
  divides the gap (days, hours, minutes, seconds, milli-, micro-, nanoseconds). The
  library computes the count in double precision: the gap, a 64-bit number, is converted
  to a double and divided by the unit, and the library asserts that the quotient is a
  whole number (an AssertionError without message, which \<open>inferred_freq\<close> does not
  catch). Only a count of nanoseconds is not divided; \<open>to_offset\<close> reads every count
  back through \<open>float\<close>.

  \<open>div_round\<close> is the whole number nearest to a quotient of positive numbers, ties to
  even; \<open>float_round\<close> the double nearest to a 64-bit number (53 bits, \<open>e\<close> the number
  of bits dropped); \<open>float_div\<close> the double nearest to the quotient of a positive double
  by a unit, when it is a whole number.
\<close>

definition div_round :: "int \<Rightarrow> int \<Rightarrow> int" where
  "div_round p q =
     (let d = p div q; r = p mod q
      in if 2 * r < q \<or> (2 * r = q \<and> even d) then d else d + 1)"

definition float_round :: "int \<Rightarrow> int" where
  "float_round n =
     (if \<bar>n\<bar> < 2 ^ 53 then n
      else (let e = length (filter (\<lambda>k. 2 ^ k \<le> \<bar>n\<bar>) [53..<64])
            in sgn n * (div_round \<bar>n\<bar> (2 ^ e) * 2 ^ e)))"

definition float_div :: "int \<Rightarrow> int \<Rightarrow> int option" where
  "float_div x u =
     (if x mod u = 0 \<and> \<bar>x div u\<bar> < 2 ^ 53 then Some (x div u)
      else (let k = length (filter (\<lambda>j. 2 ^ j \<le> x div u) [1..<64])
            in if 52 \<le> k then Some (div_round x (u * 2 ^ (k - 52)) * 2 ^ (k - 52))
               else (let m = div_round (x * 2 ^ (52 - k)) u
                     in if m mod 2 ^ (52 - k) = 0 then Some (m div 2 ^ (52 - k))
                        else None)))"

definition tick_unit :: "timedelta \<Rightarrow> timedelta" where
  "tick_unit delta =
     (if delta mod ONE_DAY = 0 then ONE_DAY
      else if delta mod ONE_HOUR = 0 then ONE_HOUR
      else if delta mod ONE_MINUTE = 0 then ONE_MINUTE
      else if delta mod ONE_SECOND = 0 then ONE_SECOND
      else if delta mod ONE_MILLI = 0 then ONE_MILLI
      else if delta mod ONE_MICRO = 0 then ONE_MICRO
      else 1)"

definition tick_count :: "timedelta \<Rightarrow> int option" where
  "tick_count delta =
     (if tick_unit delta = 1 then Some (float_round delta)
      else float_div (float_round delta) (tick_unit delta))"

definition tick_of :: "timedelta \<Rightarrow> error + offset option" where
  "tick_of delta =
     (case tick_count delta of
        None \<Rightarrow> Inl (AssertionError [])
      | Some n \<Rightarrow> Inr (Some (Tick (n * tick_unit delta))))"

text \<open>A gap whose count goes through the doubles unchanged.\<close>

definition exact_tick :: "timedelta \<Rightarrow> bool" where
  "exact_tick delta = (float_round delta = delta \<and> \<bar>delta div tick_unit delta\<bar> < 2 ^ 53)"

definition get_daily_rule :: "timestamp list \<Rightarrow> timedelta \<Rightarrow> error + offset option" where
  "get_daily_rule ix delta =
     (let days = delta div ONE_DAY
      in if days mod 7 = 0 then Inr (Some (Week (days div 7) (weekday (hd ix))))
         else tick_of delta)"

definition infer_daily_rule ::
  "calendar_rules \<Rightarrow> timestamp list \<Rightarrow> timedelta \<Rightarrow> timedelta list
     \<Rightarrow> error + offset option" where
  "infer_daily_rule cr ix delta rest =
     (case period_rule cr ix of
        Some r \<Rightarrow> Inr (Some (Anchored r))
      | None \<Rightarrow>
          if rest = [] then get_daily_rule ix delta
          else Inr (map_option Anchored (business_rule cr ix)))"

definition business_hours :: "timedelta list \<Rightarrow> bool" where
  "business_hours deltas =
     (deltas = [ONE_HOUR, 17 * ONE_HOUR] \<or> deltas = [ONE_HOUR, 65 * ONE_HOUR]
      \<or> deltas = [ONE_HOUR, 17 * ONE_HOUR, 65 * ONE_HOUR])"

text \<open>
  Fewer than three timestamps: the library's inference raises ("Need at least 3 dates to
  infer frequency") and the property \<open>inferred_freq\<close> turns that into None.
\<close>

definition inferred_freq :: "calendar_rules \<Rightarrow> timestamp list \<Rightarrow> error + offset option" where
  "inferred_freq cr ix =
     (if length ix < 3 then Inr None
      else if (sorted ix \<or> sorted (rev ix)) \<and> distinct ix then
        (case unique_deltas ix of
           [] \<Rightarrow> Inr None
         | delta # rest \<Rightarrow>
             if delta mod ONE_DAY = 0 then infer_daily_rule cr ix delta rest
             else if business_hours (delta # rest) then Inr (Some (Anchored ''BH''))
             else if rest = [] then tick_of delta
             else Inr None)
      else Inr None)"

text \<open>\<open>pd.to_timedelta\<close> of an offset: only a tick is a fixed duration.\<close>

definition to_timedelta :: "offset \<Rightarrow> error + timedelta" where
  "to_timedelta off =
     (case off of
        Tick d \<Rightarrow> (if in_int64 d then Inr d else Inl OverflowError)
      | Week n wd \<Rightarrow> Inl ValueError
      | Anchored r \<Rightarrow> Inl ValueError)"

subsection \<open>The calendar rules of the library\<close>

text \<open>
  The year, month and day of a timestamp (proleptic Gregorian calendar, from the number
  of days since 1970-01-01), and the number of days of a month.
\<close>

definition civil :: "int \<Rightarrow> int \<times> int \<times> int" where
  "civil days =
     (let z = days + 719468;
          era = z div 146097;
          doe = z mod 146097;
          yoe = (doe - doe div 1460 + doe div 36524 - doe div 146096) div 365;
          doy = doe - (365 * yoe + yoe div 4 - yoe div 100);
          mp = (5 * doy + 2) div 153;
          d = doy - (153 * mp + 2) div 5 + 1;
          m = (if mp < 10 then mp + 3 else mp - 9);
          y = yoe + era * 400 + (if m \<le> 2 then 1 else 0)
      in (y, m, d))"

definition year_of :: "timestamp \<Rightarrow> int" where
  "year_of t = fst (civil (t div ONE_DAY))"

definition month_of :: "timestamp \<Rightarrow> int" where
  "month_of t = fst (snd (civil (t div ONE_DAY)))"

definition day_of :: "timestamp \<Rightarrow> int" where
  "day_of t = snd (snd (civil (t div ONE_DAY)))"

definition is_leap_year :: "int \<Rightarrow> bool" where
  "is_leap_year y = (if y mod 100 = 0 then y mod 400 = 0 else y mod 4 = 0)"

definition days_in_month :: "int \<Rightarrow> int \<Rightarrow> int" where
  "days_in_month y m =
     (if m = 2 then (if is_leap_year y then 29 else 28)
      else if m = 4 \<or> m = 6 \<or> m = 9 \<or> m = 11 then 30
      else 31)"

text \<open>
  \<open>month_position_check\<close>: whether every timestamp is the last day of its month, or its
  last business day, or its first day, or its first business day, tried in that order.
\<close>

datatype position = CalendarEnd | BusinessEnd | CalendarStart | BusinessStart

definition calendar_start :: "timestamp \<Rightarrow> bool" where
  "calendar_start t = (day_of t = 1)"

definition business_start :: "timestamp \<Rightarrow> bool" where
  "business_start t = (day_of t = 1 \<or> (day_of t \<le> 3 \<and> weekday t = 0))"

definition calendar_end :: "timestamp \<Rightarrow> bool" where
  "calendar_end t = (day_of t = days_in_month (year_of t) (month_of t))"

definition business_end :: "timestamp \<Rightarrow> bool" where
  "business_end t =
     (calendar_end t
      \<or> (days_in_month (year_of t) (month_of t) - day_of t < 3 \<and> weekday t = 4))"

definition month_position_check :: "timestamp list \<Rightarrow> position option" where
  "month_position_check ix =
     (if list_all calendar_end ix then Some CalendarEnd
      else if list_all business_end ix then Some BusinessEnd
      else if list_all calendar_start ix then Some CalendarStart
      else if list_all business_start ix then Some BusinessStart
      else None)"

fun annual_alias :: "position \<Rightarrow> string" where
  "annual_alias CalendarStart = ''AS''"
| "annual_alias BusinessStart = ''BAS''"
| "annual_alias CalendarEnd = ''A''"
| "annual_alias BusinessEnd = ''BA''"

fun quarterly_alias :: "position \<Rightarrow> string" where
  "quarterly_alias CalendarStart = ''QS''"
| "quarterly_alias BusinessStart = ''BQS''"
| "quarterly_alias CalendarEnd = ''Q''"
| "quarterly_alias BusinessEnd = ''BQ''"

fun monthly_alias :: "position \<Rightarrow> string" where
  "monthly_alias CalendarStart = ''MS''"
| "monthly_alias BusinessStart = ''BMS''"
| "monthly_alias CalendarEnd = ''M''"
| "monthly_alias BusinessEnd = ''BM''"

text \<open>The differences of the years, and of the months counted from year 0.\<close>

definition ydiffs :: "timestamp list \<Rightarrow> int list" where
  "ydiffs ix = unique_deltas (map year_of ix)"

definition mdiffs :: "timestamp list \<Rightarrow> int list" where
  "mdiffs ix = unique_deltas (map (\<lambda>t. year_of t * 12 + month_of t) ix)"

definition annual_rule :: "timestamp list \<Rightarrow> string option" where
  "annual_rule ix =
     (if 1 < length (ydiffs ix) then None
      else if 1 < length (remdups (map month_of ix)) then None
      else map_option annual_alias (month_position_check ix))"

definition quarterly_rule :: "timestamp list \<Rightarrow> string option" where
  "quarterly_rule ix =
     (case mdiffs ix of
        [m] \<Rightarrow> if m mod 3 = 0 then map_option quarterly_alias (month_position_check ix)
               else None
      | other \<Rightarrow> None)"

definition monthly_rule :: "timestamp list \<Rightarrow> string option" where
  "monthly_rule ix =
     (if 1 < length (mdiffs ix) then None
      else map_option monthly_alias (month_position_check ix))"

definition pandas_period_rule :: "timestamp list \<Rightarrow> string option" where
  "pandas_period_rule ix =
     (case annual_rule ix of
        Some a \<Rightarrow> Some a
      | None \<Rightarrow> (case quarterly_rule ix of Some q \<Rightarrow> Some q | None \<Rightarrow> monthly_rule ix))"

text \<open>
  \<open>_is_business_daily\<close>: the gaps are of one and of three days, and every step arrives on
  a Monday after three days or on a Tuesday to Friday after one.
\<close>

fun business_steps :: "int \<Rightarrow> int list \<Rightarrow> bool" where
  "business_steps wd [] = True"
| "business_steps wd (s # ss) =
     (let w = (wd + s) mod 7
      in ((w = 0 \<and> s = 3) \<or> (0 < w \<and> w \<le> 4 \<and> s = 1)) \<and> business_steps w ss)"

definition is_business_daily :: "timestamp list \<Rightarrow> bool" where
  "is_business_daily ix =
     (unique_deltas ix = [ONE_DAY, 3 * ONE_DAY]
      \<and> business_steps (int (weekday (hd ix)))
          (map (\<lambda>g. wrap64 g div ONE_DAY) (gaps ix)))"

text \<open>
  \<open>_get_wom_rule\<close>: every timestamp on one weekday and in one of the first four weeks of
  its month.
\<close>

definition wom_rule :: "timestamp list \<Rightarrow> string option" where
  "wom_rule ix =
     (if 1 < length (remdups (map weekday ix)) then None
      else (case remdups (filter (\<lambda>w. w < 4) (map (\<lambda>t. (day_of t - 1) div 7) ix)) of
              [w] \<Rightarrow> Some ''WOM''
            | other \<Rightarrow> None))"

definition pandas_business_rule :: "timestamp list \<Rightarrow> string option" where
  "pandas_business_rule ix = (if is_business_daily ix then Some ''B'' else wom_rule ix)"

definition pandas_rules :: calendar_rules where
  "pandas_rules =
     \<lparr>period_rule = pandas_period_rule, business_rule = pandas_business_rule\<rparr>"

section \<open>The class TimeSeries\<close>

record 'v TimeSeries =
  TS_series :: "'v pd_series"
  TS_freq :: offset
  TS_confidence_lo :: "'v pd_series option"
  TS_confidence_hi :: "'v pd_series option"

text \<open>
  \<open>__init__\<close>: the two length and type assertions, the sort, the inferred frequency and
  its assertion, then each confidence series: sorted, and its index compared with the
  main index by \<open>==\<close> inside an \<open>assert\<close>.
\<close>

definition init_confidence ::
  "'v pd_series \<Rightarrow> 'v pd_series option \<Rightarrow> string \<Rightarrow> error + 'v pd_series option" where
  "init_confidence s confidence msg =
     (case confidence of
        None \<Rightarrow> Inr None
      | Some c \<Rightarrow>
          (let c' = sort_index c
           in bind_err (index_eq (index c') (index s)) (\<lambda>eq.
              bind_err (py_assert_array eq msg) (\<lambda>u. Inr (Some c')))))"

definition TimeSeries_init ::
  "calendar_rules \<Rightarrow> 'v pd_series \<Rightarrow> 'v pd_series option \<Rightarrow> 'v pd_series option
     \<Rightarrow> error + 'v TimeSeries" where
  "TimeSeries_init cr series confidence_lo confidence_hi =
     bind_err (py_assert (1 \<le> length series) ''Time series must have at least one value'')
       (\<lambda>u.
       let s = sort_index series
       in bind_err (inferred_freq cr (index s)) (\<lambda>freq_str.
          (case freq_str of
             None \<Rightarrow>
               Inl (AssertionError ''Could not infer frequency. Are some dates missing?'')
           | Some f \<Rightarrow>
               bind_err (init_confidence s confidence_lo
                 ''Lower confidence interval and main series must have the same time index'')
                 (\<lambda>lo.
               bind_err (init_confidence s confidence_hi
                 ''Upper confidence interval and main series musthave the same time index'')
                 (\<lambda>hi.
                 Inr \<lparr>TS_series = s, TS_freq = f,
                      TS_confidence_lo = lo, TS_confidence_hi = hi\<rparr>)))))"

subsection \<open>Accessors\<close>

definition pd_series :: "'v TimeSeries \<Rightarrow> 'v pd_series" where
  "pd_series self = TS_series self"

definition conf_lo_pd_series :: "'v TimeSeries \<Rightarrow> 'v pd_series option" where
  "conf_lo_pd_series self = TS_confidence_lo self"

definition conf_hi_pd_series :: "'v TimeSeries \<Rightarrow> 'v pd_series option" where
  "conf_hi_pd_series self = TS_confidence_hi self"

definition start_time :: "'v TimeSeries \<Rightarrow> error + timestamp" where
  "start_time self =
     (case index (TS_series self) of [] \<Rightarrow> Inl IndexError | t # ts \<Rightarrow> Inr t)"

definition end_time :: "'v TimeSeries \<Rightarrow> error + timestamp" where
  "end_time self =
     (case rev (index (TS_series self)) of [] \<Rightarrow> Inl IndexError | t # ts \<Rightarrow> Inr t)"

definition time_index :: "'v TimeSeries \<Rightarrow> timestamp list" where
  "time_index self = index (TS_series self)"

definition freq :: "'v TimeSeries \<Rightarrow> error + timedelta" where
  "freq self = to_timedelta (TS_freq self)"

definition duration :: "'v TimeSeries \<Rightarrow> error + timedelta" where
  "duration self =
     bind_err (end_time self) (\<lambda>e. bind_err (start_time self) (\<lambda>s. timestamp_sub e s))"

definition len :: "'v TimeSeries \<Rightarrow> nat" where
  "len self = length (TS_series self)"

subsection \<open>slice and split\<close>

text \<open>
  The inner function \<open>_slice_not_none\<close> of \<open>slice\<close>: the rows from \<open>start_ts\<close> on, then
  of those the rows up to \<open>end_ts\<close>, the second mask read from the attribute the source
  names, \<open>s_a.indey\<close>.
\<close>

definition slice_not_none ::
  "timestamp \<Rightarrow> timestamp \<Rightarrow> 'v pd_series option \<Rightarrow> error + 'v pd_series option" where
  "slice_not_none start_ts end_ts s =
     (case s of
        None \<Rightarrow> Inr None
      | Some s' \<Rightarrow>
          (let s_a = mask_select s' (map (\<lambda>t. start_ts \<le> t) (index s'))
           in bind_err (series_getattr s_a ''indey'') (\<lambda>ix.
                Inr (Some (mask_select s_a (map (\<lambda>t. t \<le> end_ts) ix))))))"

definition slice ::
  "calendar_rules \<Rightarrow> 'v TimeSeries \<Rightarrow> timestamp \<Rightarrow> timestamp \<Rightarrow> error + 'v TimeSeries" where
  "slice cr self start_ts end_ts =
     bind_err (py_assert (start_ts < end_ts)
       ''End timestamp must be strictly after start timestamp when slicing'') (\<lambda>u.
     bind_err (start_time self) (\<lambda>st.
     bind_err (py_assert (st \<le> end_ts)
       ''End timestamp must be after the start of the time series when slicing'') (\<lambda>u.
     bind_err (end_time self) (\<lambda>et.
     bind_err (py_assert (start_ts \<le> et)
       ''Start timestamp must be after the end of the time series when slicing'') (\<lambda>u.
     bind_err (slice_not_none start_ts end_ts (Some (TS_series self))) (\<lambda>a.
     bind_err (slice_not_none start_ts end_ts (TS_confidence_lo self)) (\<lambda>b.
     bind_err (slice_not_none start_ts end_ts (TS_confidence_hi self)) (\<lambda>c.
       (case a of
          None \<Rightarrow> Inl TypeError
        | Some series \<Rightarrow> TimeSeries_init cr series b c)))))))))"

definition slice_duration ::
  "calendar_rules \<Rightarrow> 'v TimeSeries \<Rightarrow> timestamp \<Rightarrow> timedelta \<Rightarrow> error + 'v TimeSeries" where
  "slice_duration cr self start_ts dur =
     bind_err (timestamp_add start_ts dur) (\<lambda>end_ts. slice cr self start_ts end_ts)"

definition split ::
  "calendar_rules \<Rightarrow> 'v TimeSeries \<Rightarrow> timestamp
     \<Rightarrow> error + ('v TimeSeries \<times> 'v TimeSeries)" where
  "split cr self ts =
     bind_err (py_assert (ts \<in> set (index (TS_series self)))
       ''The provided timestamp is not in the time series'') (\<lambda>u.
     bind_err (freq self) (\<lambda>f.
     bind_err (timestamp_add ts f) (\<lambda>start_second_series.
     bind_err (start_time self) (\<lambda>st.
     bind_err (slice cr self st ts) (\<lambda>first.
     bind_err (end_time self) (\<lambda>et.
     bind_err (slice cr self start_second_series et) (\<lambda>second.
       Inr (first, second))))))))"

subsection \<open>Combination\<close>

definition has_same_time_as :: "'v TimeSeries \<Rightarrow> 'v TimeSeries \<Rightarrow> error + bool list" where
  "has_same_time_as self other = index_eq (time_index other) (time_index self)"

definition combine_or_none ::
  "'v pd_series option \<Rightarrow> 'v pd_series option \<Rightarrow> ('v pd_series \<Rightarrow> 'v pd_series \<Rightarrow> 'v pd_series)
     \<Rightarrow> 'v pd_series option" where
  "combine_or_none series_a series_b combine_fn =
     (case series_a of
        None \<Rightarrow> None
      | Some a \<Rightarrow> (case series_b of None \<Rightarrow> None | Some b \<Rightarrow> Some (combine_fn a b)))"

definition combine_from_pd_ops ::
  "calendar_rules \<Rightarrow> 'v TimeSeries \<Rightarrow> 'v TimeSeries
     \<Rightarrow> ('v pd_series \<Rightarrow> 'v pd_series \<Rightarrow> 'v pd_series) \<Rightarrow> error + 'v TimeSeries" where
  "combine_from_pd_ops cr self other combine_fn =
     bind_err (has_same_time_as self other) (\<lambda>same.
     bind_err (py_assert_array same ''The two time series must have the same time index'')
       (\<lambda>u.
       let series = combine_fn (TS_series self) (pd_series other);
           conf_lo = combine_or_none (TS_confidence_lo self) (conf_lo_pd_series other) combine_fn;
           conf_hi = combine_or_none (TS_confidence_hi self) (conf_hi_pd_series other) combine_fn
       in TimeSeries_init cr series conf_lo conf_hi))"


subsection \<open>The factories\<close>

text \<open>
  A DataFrame: the row labels of its index (row numbers by default, timestamps when the
  frame is indexed by time) and its named columns, each as long as the index. The cells
  are of one type \<open>'c\<close>; the library's timestamp parsing of a cell (\<open>pd.to_datetime\<close>
  with \<open>errors='raise'\<close>) and the missing value \<open>nan\<close> are parameters.
\<close>

datatype label = RowLabel int | TimeLabel timestamp

record 'c DataFrame =
  df_index :: "label list"
  df_columns :: "(string \<times> 'c list) list"

definition getitem :: "'c DataFrame \<Rightarrow> string \<Rightarrow> error + 'c list" where
  "getitem df col = (case map_of (df_columns df) col of None \<Rightarrow> Inl KeyError | Some c \<Rightarrow> Inr c)"

definition to_datetime :: "('c \<Rightarrow> timestamp option) \<Rightarrow> 'c list \<Rightarrow> error + timestamp list" where
  "to_datetime parse col =
     (case those (map parse col) of None \<Rightarrow> Inl ValueError | Some ts \<Rightarrow> Inr ts)"

text \<open>\<open>pd.Series(values, index=times)\<close> from an array of values: positional.\<close>

definition new_series :: "'c list \<Rightarrow> timestamp list \<Rightarrow> error + 'c pd_series" where
  "new_series vals ix = (if length vals = length ix then Inr (zip ix vals) else Inl ValueError)"

text \<open>
  \<open>pd.Series(s, index=times)\<close> from a Series \<open>s\<close>: the library reindexes \<open>s\<close>, by
  label. Where the labels of \<open>s\<close> are the new index the rows are kept; otherwise each
  new label takes the value \<open>s\<close> holds at that label, or \<open>nan\<close> when \<open>s\<close> has no such
  label, and a Series with a repeated label cannot be reindexed (ValueError).
\<close>

definition reindex :: "'c \<Rightarrow> (label \<times> 'c) list \<Rightarrow> timestamp list \<Rightarrow> error + 'c pd_series" where
  "reindex nan s ix =
     (if map fst s = map TimeLabel ix then Inr (zip ix (map snd s))
      else if distinct (map fst s) then
        Inr (map (\<lambda>t. (t, case map_of s (TimeLabel t) of None \<Rightarrow> nan | Some v \<Rightarrow> v)) ix)
      else Inl ValueError)"

definition reindexed_column ::
  "'c \<Rightarrow> 'c DataFrame \<Rightarrow> timestamp list \<Rightarrow> string option \<Rightarrow> error + 'c pd_series option" where
  "reindexed_column nan df tstamps col =
     (case col of
        None \<Rightarrow> Inr None
      | Some c \<Rightarrow>
          bind_err (getitem df c) (\<lambda>cells.
          bind_err (reindex nan (zip (df_index df) cells) tstamps) (\<lambda>s. Inr (Some s))))"

text \<open>
  \<open>from_dataframe\<close>, in two steps: the three local series it builds (\<open>series\<close>,
  \<open>conf_lo\<close>, \<open>conf_hi\<close>), then the call of the constructor on them.
\<close>

definition from_dataframe_series ::
  "('c \<Rightarrow> timestamp option) \<Rightarrow> 'c \<Rightarrow> 'c DataFrame \<Rightarrow> string \<Rightarrow> string \<Rightarrow> string option
     \<Rightarrow> string option \<Rightarrow> error + ('c pd_series \<times> 'c pd_series option \<times> 'c pd_series option)" where
  "from_dataframe_series parse nan df time_col value_col conf_lo_col conf_hi_col =
     bind_err (getitem df time_col) (\<lambda>raw.
     bind_err (to_datetime parse raw) (\<lambda>tstamps.
     bind_err (getitem df value_col) (\<lambda>vals.
     bind_err (new_series vals tstamps) (\<lambda>series.
     bind_err (reindexed_column nan df tstamps conf_lo_col) (\<lambda>conf_lo.
     bind_err (reindexed_column nan df tstamps conf_hi_col) (\<lambda>conf_hi.
       Inr (series, conf_lo, conf_hi)))))))"

definition from_dataframe ::
  "calendar_rules \<Rightarrow> ('c \<Rightarrow> timestamp option) \<Rightarrow> 'c \<Rightarrow> 'c DataFrame \<Rightarrow> string \<Rightarrow> string
     \<Rightarrow> string option \<Rightarrow> string option \<Rightarrow> error + 'c TimeSeries" where
  "from_dataframe cr parse nan df time_col value_col conf_lo_col conf_hi_col =
     bind_err (from_dataframe_series parse nan df time_col value_col conf_lo_col conf_hi_col)
       (\<lambda>(series, conf_lo, conf_hi). TimeSeries_init cr series conf_lo conf_hi)"

definition optional_series ::
  "timestamp list \<Rightarrow> 'c list option \<Rightarrow> error + 'c pd_series option" where
  "optional_series tstamps vals =
     (case vals of
        None \<Rightarrow> Inr None
      | Some v \<Rightarrow> bind_err (new_series v tstamps) (\<lambda>s. Inr (Some s)))"

definition from_times_and_values ::
  "calendar_rules \<Rightarrow> timestamp list \<Rightarrow> 'c list \<Rightarrow> 'c list option \<Rightarrow> 'c list option
     \<Rightarrow> error + 'c TimeSeries" where
  "from_times_and_values cr tstamps vals confidence_lo confidence_hi =
     bind_err (new_series vals tstamps) (\<lambda>series.
     bind_err (optional_series tstamps confidence_lo) (\<lambda>series_lo.
     bind_err (optional_series tstamps confidence_hi) (\<lambda>series_hi.
       TimeSeries_init cr series series_lo series_hi)))"

text \<open>
  The factory as the specification words it: the parsed timestamps zipped positionally
  with the value column and with each selected bound column, then the constructor.
\<close>

definition positional_column ::
  "'c DataFrame \<Rightarrow> timestamp list \<Rightarrow> string option \<Rightarrow> error + 'c pd_series option" where
  "positional_column df tstamps col =
     (case col of
        None \<Rightarrow> Inr None
      | Some c \<Rightarrow>
          bind_err (getitem df c) (\<lambda>cells.
          bind_err (new_series cells tstamps) (\<lambda>s. Inr (Some s))))"

definition from_dataframe_series_spec ::
  "('c \<Rightarrow> timestamp option) \<Rightarrow> 'c DataFrame \<Rightarrow> string \<Rightarrow> string \<Rightarrow> string option
     \<Rightarrow> string option \<Rightarrow> error + ('c pd_series \<times> 'c pd_series option \<times> 'c pd_series option)" where
  "from_dataframe_series_spec parse df time_col value_col conf_lo_col conf_hi_col =
     bind_err (getitem df time_col) (\<lambda>raw.
     bind_err (to_datetime parse raw) (\<lambda>tstamps.
     bind_err (getitem df value_col) (\<lambda>vals.
     bind_err (new_series vals tstamps) (\<lambda>series.
     bind_err (positional_column df tstamps conf_lo_col) (\<lambda>conf_lo.
     bind_err (positional_column df tstamps conf_hi_col) (\<lambda>conf_hi.
       Inr (series, conf_lo, conf_hi)))))))"

definition from_dataframe_spec ::
  "calendar_rules \<Rightarrow> ('c \<Rightarrow> timestamp option) \<Rightarrow> 'c DataFrame \<Rightarrow> string \<Rightarrow> string
     \<Rightarrow> string option \<Rightarrow> string option \<Rightarrow> error + 'c TimeSeries" where
  "from_dataframe_spec cr parse df time_col value_col conf_lo_col conf_hi_col =
     bind_err (from_dataframe_series_spec parse df time_col value_col conf_lo_col conf_hi_col)
       (\<lambda>(series, conf_lo, conf_hi). TimeSeries_init cr series conf_lo conf_hi)"

section \<open>Accessors over a store\<close>

text \<open>
  What an accessor hands out matters once the caller writes to it. Here a Series is an
  immutable index and the address of its numpy buffer in a store (a list of buffers, an
  address being a position in it); \<open>copy\<close> allocates a new buffer, \<open>.values\<close> is the
  buffer itself, and \<open>a[i] = v\<close> on an array writes the store.
\<close>

type_synonym addr = nat
type_synonym 'v store = "'v list list"

record series_obj =
  so_index :: "timestamp list"
  so_values :: addr

record ts_obj =
  obj_series :: series_obj
  obj_freq :: offset
  obj_confidence_lo :: "series_obj option"
  obj_confidence_hi :: "series_obj option"

definition series_copy :: "'v store \<Rightarrow> series_obj \<Rightarrow> series_obj \<times> 'v store" where
  "series_copy h s = (\<lparr>so_index = so_index s, so_values = length h\<rparr>, h @ [h ! so_values s])"

definition optional_copy :: "'v store \<Rightarrow> series_obj option \<Rightarrow> series_obj option \<times> 'v store" where
  "optional_copy h s =
     (case s of
        None \<Rightarrow> (None, h)
      | Some s' \<Rightarrow> (case series_copy h s' of (c, h') \<Rightarrow> (Some c, h')))"

definition pd_series_obj :: "'v store \<Rightarrow> ts_obj \<Rightarrow> series_obj \<times> 'v store" where
  "pd_series_obj h self = series_copy h (obj_series self)"

definition conf_lo_pd_series_obj :: "'v store \<Rightarrow> ts_obj \<Rightarrow> series_obj option \<times> 'v store" where
  "conf_lo_pd_series_obj h self = optional_copy h (obj_confidence_lo self)"

definition conf_hi_pd_series_obj :: "'v store \<Rightarrow> ts_obj \<Rightarrow> series_obj option \<times> 'v store" where
  "conf_hi_pd_series_obj h self = optional_copy h (obj_confidence_hi self)"

definition values_obj :: "ts_obj \<Rightarrow> addr" where
  "values_obj self = so_values (obj_series self)"

definition time_index_obj :: "ts_obj \<Rightarrow> timestamp list" where
  "time_index_obj self = so_index (obj_series self)"

definition ndarray_setitem :: "'v store \<Rightarrow> addr \<Rightarrow> nat \<Rightarrow> 'v \<Rightarrow> error + 'v store" where
  "ndarray_setitem h a i v =
     (if a < length h \<and> i < length (h ! a) then Inr (h[a := (h ! a)[i := v]])
      else Inl IndexError)"

text \<open>The state of an object in a store, as the record of the class above.\<close>

definition series_in :: "'v store \<Rightarrow> series_obj \<Rightarrow> 'v pd_series" where
  "series_in h s = zip (so_index s) (h ! so_values s)"

definition stored :: "'v store \<Rightarrow> ts_obj \<Rightarrow> 'v TimeSeries" where
  "stored h self =
     \<lparr>TS_series = series_in h (obj_series self), TS_freq = obj_freq self,
      TS_confidence_lo = map_option (series_in h) (obj_confidence_lo self),
      TS_confidence_hi = map_option (series_in h) (obj_confidence_hi self)\<rparr>"

definition allocated :: "'v store \<Rightarrow> ts_obj \<Rightarrow> bool" where
  "allocated h self =
     (so_values (obj_series self) < length h
      \<and> (case obj_confidence_lo self of None \<Rightarrow> True | Some s \<Rightarrow> so_values s < length h)
      \<and> (case obj_confidence_hi self of None \<Rightarrow> True | Some s \<Rightarrow> so_values s < length h))"

section \<open>Example series\<close>

definition jan2020 :: "int \<Rightarrow> timestamp" where
  "jan2020 d = 1577836800000000000 + (d - 1) * ONE_DAY"

definition daily5 :: "int pd_series" where
  "daily5 = [(jan2020 1, 1), (jan2020 2, 2), (jan2020 3, 3), (jan2020 4, 4), (jan2020 5, 5)]"

definition daily5_ts :: "int TimeSeries" where
  "daily5_ts = \<lparr>TS_series = daily5, TS_freq = Tick ONE_DAY,
                TS_confidence_lo = None, TS_confidence_hi = None\<rparr>"



definition weekly3 :: "int pd_series" where
  "weekly3 = [(jan2020 1, 1), (jan2020 8, 2), (jan2020 15, 3)]"

definition weekly3_ts :: "int TimeSeries" where
  "weekly3_ts = \<lparr>TS_series = weekly3, TS_freq = Week 1 2,
                 TS_confidence_lo = None, TS_confidence_hi = None\<rparr>"










text \<open>Three timestamps 100000 days apart, about 274 years, around the epoch.\<close>

definition far3 :: "int pd_series" where
  "far3 = [(- (100000 * ONE_DAY), 1), (0, 2), (100000 * ONE_DAY, 3)]"

definition far3_ts :: "int TimeSeries" where
  "far3_ts = \<lparr>TS_series = far3, TS_freq = Tick (100000 * ONE_DAY),
              TS_confidence_lo = None, TS_confidence_hi = None\<rparr>"

text \<open>Three timestamps \<open>2 ^ 53 + 1\<close> nanoseconds apart, about 104 days.\<close>

definition odd3 :: "int pd_series" where
  "odd3 = [(0, 1), (2 ^ 53 + 1, 2), (2 ^ 54 + 2, 3)]"

definition odd3_ts :: "int TimeSeries" where
  "odd3_ts = \<lparr>TS_series = odd3, TS_freq = Tick (2 ^ 53),
              TS_confidence_lo = None, TS_confidence_hi = None\<rparr>"

text \<open>
  An example \<open>combine_fn\<close>: the arithmetic of two Series position by position, which is
  what the library computes when the two indexes are equal.
\<close>

definition elementwise :: "('v \<Rightarrow> 'v \<Rightarrow> 'v) \<Rightarrow> 'v pd_series \<Rightarrow> 'v pd_series \<Rightarrow> 'v pd_series" where
  "elementwise f s1 s2 = map (\<lambda>((t, x), (u, y)). (t, f x y)) (zip s1 s2)"

text \<open>Example frames: cells are numbers or the missing value; a time cell is a number
  of nanoseconds since the epoch.\<close>

datatype cell = Num int | NaN

fun epoch_ns :: "cell \<Rightarrow> timestamp option" where
  "epoch_ns (Num n) = Some n"
| "epoch_ns NaN = None"

definition frame3 :: "cell DataFrame" where
  "frame3 =
     \<lparr>df_index = [RowLabel 0, RowLabel 1, RowLabel 2],
      df_columns =
        [(''time'', [Num (jan2020 1), Num (jan2020 2), Num (jan2020 3)]),
         (''value'', [Num 1, Num 2, Num 3]),
         (''lo'', [Num 0, Num 1, Num 2])]\<rparr>"

definition frame_dup :: "cell DataFrame" where
  "frame_dup =
     \<lparr>df_index = [RowLabel 0, RowLabel 0, RowLabel 1],
      df_columns =
        [(''time'', [Num (jan2020 1), Num (jan2020 2), Num (jan2020 4)]),
         (''value'', [Num 1, Num 2, Num 4]),
         (''lo'', [Num 0, Num 1, Num 3])]\<rparr>"

definition frame3_ts :: "cell TimeSeries" where
  "frame3_ts =
     \<lparr>TS_series = [(jan2020 1, Num 1), (jan2020 2, Num 2), (jan2020 3, Num 3)],
      TS_freq = Tick ONE_DAY, TS_confidence_lo = None, TS_confidence_hi = None\<rparr>"

definition store3 :: "int store" where
  "store3 = [[1, 2, 3]]"

definition obj3 :: ts_obj where
  "obj3 =
     \<lparr>obj_series = \<lparr>so_index = [jan2020 1, jan2020 2, jan2020 3], so_values = 0\<rparr>,
      obj_freq = Tick ONE_DAY, obj_confidence_lo = None, obj_confidence_hi = None\<rparr>"

section \<open>Facts about the library model\<close>

lemma length_sort_index [simp]: "length (sort_index s) = length s"
  by (simp add: sort_index_def)

lemma length_index [simp]: "length (index s) = length s"
  by (simp add: index_def)

lemma sorted_index_sort: "sorted (index (sort_index s))"
  by (simp add: index_def sort_index_def)

lemma truth_value_long: "2 \<le> length bs \<Longrightarrow> truth_value bs = Inl ValueError"
  by (cases bs rule: truth_value.cases) auto

lemma index_eq_long:
  assumes "2 \<le> length a" "2 \<le> length b"
  shows "bind_err (index_eq a b) (\<lambda>eq. py_assert_array eq msg) = Inl ValueError"
  using assms by (simp add: index_eq_def bind_err_def py_assert_array_def truth_value_long)

lemma gaps_Cons2: "gaps (x # y # zs) = (y - x) # gaps (y # zs)"
  by (simp add: gaps_def)


lemma wrap64_id: "- (2 ^ 63) \<le> x \<Longrightarrow> x < 2 ^ 63 \<Longrightarrow> wrap64 x = x"
  by (simp add: wrap64_def)





text \<open>In a sorted index every gap lies between zero and the whole span.\<close>

lemma sorted_gaps_span:
  "sorted ix \<Longrightarrow> g \<in> set (gaps ix) \<Longrightarrow> 0 \<le> g \<and> g \<le> last ix - hd ix"
proof (induction ix rule: induct_list012)
  case 1
  then show ?case by (simp add: gaps_def)
next
  case (2 x)
  then show ?case by (simp add: gaps_def)
next
  case (3 x y zs)
  have xy: "x \<le> y" using "3.prems"(1) by simp
  have yl: "y \<le> last (y # zs)" using "3.prems"(1) by (cases zs) auto
  have l: "last (x # y # zs) = last (y # zs)" by simp
  show ?case
  proof (cases "g = y - x")
    case True
    with xy yl show ?thesis unfolding l by simp
  next
    case False
    with "3.prems" have "g \<in> set (gaps (y # zs))" "sorted (y # zs)"
      by (simp_all add: gaps_Cons2)
    with "3.IH"(2) have "0 \<le> g \<and> g \<le> last (y # zs) - hd (y # zs)" by blast
    with xy show ?thesis unfolding l by simp
  qed
qed


text \<open>Equal, non-zero gaps on three or more sorted timestamps: a frequency is inferred.\<close>

lemma regular_span:
  "ix \<noteq> [] \<Longrightarrow> regular d ix \<Longrightarrow> last ix - hd ix = int (length ix - 1) * d"
proof (induction ix rule: induct_list012)
  case 1
  then show ?case by simp
next
  case (2 x)
  then show ?case by simp
next
  case (3 x y zs)
  then have "last (y # zs) - y = int (length zs) * d" "y - x = d"
    by (simp_all add: regular_def gaps_Cons2)
  moreover have "last (x # y # zs) = last (y # zs)" by simp
  ultimately have "last (x # y # zs) - x = int (length zs) * d + d" by linarith
  then show ?case by (simp add: algebra_simps del: last.simps)
qed

lemma tick_unit_divides: "delta mod tick_unit delta = 0"
  by (simp add: tick_unit_def)

lemma exact_tick_of: "exact_tick delta \<Longrightarrow> tick_of delta = Inr (Some (Tick delta))"
  using tick_unit_divides [of delta] div_mult_mod_eq [of delta "tick_unit delta"]
  by (simp add: exact_tick_def tick_of_def tick_count_def float_div_def)



lemma inferred_freq_Some_length: "inferred_freq cr ix = Inr (Some f) \<Longrightarrow> 3 \<le> length ix"
  by (simp add: inferred_freq_def split: if_splits)



text \<open>A tick is only ever inferred from 64-bit differences that are all equal.\<close>

lemma inferred_freq_Tick:
  assumes "inferred_freq cr ix = Inr (Some (Tick d))"
  shows "\<exists>delta. unique_deltas ix = [delta] \<and> tick_of delta = Inr (Some (Tick d))"
  using assms
  by (auto simp add: inferred_freq_def infer_daily_rule_def get_daily_rule_def Let_def
      split: if_splits list.splits option.splits)

text \<open>
  Where a tick was inferred and the span of the index fits a Timedelta, the gaps are all
  equal, and the tick is their value when its count is exact.
\<close>

lemma tick_regular:
  assumes "inferred_freq cr ix = Inr (Some (Tick f))" "sorted ix"
    and "in_int64 (last ix - hd ix)" "list_all exact_tick (gaps ix)"
  shows "regular f ix"
proof -
  from inferred_freq_Tick [OF assms(1)] obtain delta
    where u: "unique_deltas ix = [delta]" and f: "tick_of delta = Inr (Some (Tick f))"
    by blast
  have w: "map wrap64 (gaps ix) = gaps ix"
  proof (rule map_idI)
    fix g assume "g \<in> set (gaps ix)"
    with sorted_gaps_span [OF assms(2)] have "0 \<le> g" "g \<le> last ix - hd ix" by blast+
    moreover from assms(3) have "last ix - hd ix < 2 ^ 63" by (simp add: in_int64_def)
    ultimately show "wrap64 g = g" by (intro wrap64_id) simp_all
  qed
  from u have "set (remdups (gaps ix)) = {delta}"
    unfolding unique_deltas_def w by (metis empty_set list.simps(15) set_sort)
  then have s: "set (gaps ix) = {delta}" by simp
  with assms(4) have "exact_tick delta" by (simp add: list_all_iff)
  with f have "f = delta" by (simp add: exact_tick_of)
  with s show ?thesis by (simp add: regular_def list_all_iff)
qed

section \<open>What the constructor accepts\<close>

text \<open>
  A supplied confidence series never passes the constructor once the main series has two
  rows or more: the comparison of the two indexes raises, for unequal lengths in the
  comparison itself and for equal lengths in the truth value of its elementwise result.
\<close>

lemma init_confidence_Some:
  assumes "2 \<le> length s"
  shows "\<exists>e. init_confidence s (Some c) msg = Inl e"
proof (cases "length c = length s")
  case True
  then have "truth_value (map (\<lambda>(x, y). x = y) (zip (index (sort_index c)) (index s)))
      = Inl ValueError"
    using assms by (simp add: truth_value_long)
  with True show ?thesis
    by (simp add: init_confidence_def index_eq_def bind_err_def py_assert_array_def)
next
  case False
  then show ?thesis
    by (simp add: init_confidence_def index_eq_def bind_err_def)
qed

text \<open>Every object the constructor returns: sorted rows, three or more of them, an
  inferred frequency, and no confidence bound.\<close>

lemma init_Inr:
  assumes "TimeSeries_init cr s lo hi = Inr ts"
  shows "TS_series ts = sort_index s"
    and "inferred_freq cr (index (sort_index s)) = Inr (Some (TS_freq ts))"
    and "3 \<le> length s"
    and "lo = None" and "hi = None"
    and "TS_confidence_lo ts = None" and "TS_confidence_hi ts = None"
proof -
  from assms obtain f lo' hi' m1 m2 where
    f: "inferred_freq cr (index (sort_index s)) = Inr (Some f)"
    and lo: "init_confidence (sort_index s) lo m1 = Inr lo'"
    and hi: "init_confidence (sort_index s) hi m2 = Inr hi'"
    and ts: "ts = \<lparr>TS_series = sort_index s, TS_freq = f,
                   TS_confidence_lo = lo', TS_confidence_hi = hi'\<rparr>"
    by (auto simp add: TimeSeries_init_def bind_err_def py_assert_def Let_def
        split: if_splits option.splits sum.splits)
  from f have len: "3 \<le> length s"
    using inferred_freq_Some_length by fastforce
  show "TS_series ts = sort_index s" using ts by simp
  show "inferred_freq cr (index (sort_index s)) = Inr (Some (TS_freq ts))"
    using f ts by simp
  show "3 \<le> length s" by (rule len)
  show l: "lo = None"
  proof (cases lo)
    case (Some c)
    with init_confidence_Some [of "sort_index s" c m1] len lo show ?thesis by simp
  qed simp
  show h: "hi = None"
  proof (cases hi)
    case (Some c)
    with init_confidence_Some [of "sort_index s" c m2] len hi show ?thesis by simp
  qed simp
  show "TS_confidence_lo ts = None" using l lo ts by (simp add: init_confidence_def)
  show "TS_confidence_hi ts = None" using h hi ts by (simp add: init_confidence_def)
qed


lemma init_empty:
  "TimeSeries_init cr [] lo hi = Inl (AssertionError ''Time series must have at least one value'')"
  by (simp add: TimeSeries_init_def bind_err_def py_assert_def)



lemma daily5_constructs:
  "TimeSeries_init no_calendar_rules daily5 None None = Inr daily5_ts"
  by code_simp

text \<open>The example series behave the same under the calendar rules of the library.\<close>

lemma daily5_constructs_pandas:
  "TimeSeries_init pandas_rules daily5 None None = Inr daily5_ts"
  by code_simp

lemma daily5_under_pandas_rules:
  "slice pandas_rules daily5_ts (jan2020 2) (jan2020 4) = Inl AttributeError"
  "split pandas_rules daily5_ts (jan2020 3) = Inl AttributeError"
  "TimeSeries_init pandas_rules daily5 (Some daily5) None = Inl ValueError"
  "TimeSeries_init pandas_rules daily5 None (Some daily5) = Inl ValueError"
  by code_simp+

lemma frame_dup_under_pandas_rules:
  "from_dataframe pandas_rules epoch_ns NaN frame_dup ''time'' ''value'' (Some ''lo'') None
     = Inl ValueError"
  "from_dataframe_spec pandas_rules epoch_ns frame_dup ''time'' ''value'' (Some ''lo'') None
     = Inl (AssertionError ''Could not infer frequency. Are some dates missing?'')"
  by code_simp+

section \<open>slice and split never return\<close>

lemma slice_raises:
  assumes "start_time self = Inr st" "end_time self = Inr et"
    and "start_ts < end_ts" "st \<le> end_ts" "start_ts \<le> et"
  shows "slice cr self start_ts end_ts = Inl AttributeError"
  using assms
  by (simp add: slice_def bind_err_def py_assert_def slice_not_none_def series_getattr_def)

lemma slice_not_Inr: "slice cr self start_ts end_ts \<noteq> Inr r"
  by (auto simp add: slice_def bind_err_def py_assert_def slice_not_none_def series_getattr_def
      split: sum.splits)

lemma split_not_Inr: "split cr self ts \<noteq> Inr r"
  by (auto simp add: split_def bind_err_def py_assert_def Let_def slice_not_Inr
      split: sum.splits)

section \<open>Combination never returns\<close>

lemma combine_raises:
  assumes "TimeSeries_init cr s lo hi = Inr a" "TimeSeries_init cr s' lo' hi' = Inr b"
  shows "combine_from_pd_ops cr a b combine_fn = Inl ValueError"
proof -
  have "2 \<le> length (time_index a)" "2 \<le> length (time_index b)"
    using init_Inr(1,3) [OF assms(1)] init_Inr(1,3) [OF assms(2)]
    by (simp_all add: time_index_def)
  then have "bind_err (index_eq (time_index b) (time_index a))
      (\<lambda>eq. py_assert_array eq ''The two time series must have the same time index'')
      = Inl ValueError"
    by (simp add: index_eq_long)
  then show ?thesis
    by (auto simp add: combine_from_pd_ops_def has_same_time_as_def bind_err_def
        split: sum.splits)
qed

text \<open>The helper \<open>_combine_or_none\<close> on its own: a bound of the result exactly when both
  operands carry it.\<close>

lemma combine_or_none_Some:
  "combine_or_none a b f = Some r \<longleftrightarrow> (\<exists>x y. a = Some x \<and> b = Some y \<and> r = f x y)"
  by (auto simp add: combine_or_none_def split: option.splits)

section \<open>The factories\<close>

text \<open>What a factory returns, the constructor returned.\<close>

lemma from_times_and_values_init:
  assumes "from_times_and_values cr tstamps vals clo chi = Inr ts"
  shows "\<exists>s lo hi. TimeSeries_init cr s lo hi = Inr ts"
  using assms
  by (auto simp add: from_times_and_values_def bind_err_def split: sum.splits)

lemma from_dataframe_init:
  assumes "from_dataframe cr parse nan df time_col value_col lo_col hi_col = Inr ts"
  shows "\<exists>s lo hi. TimeSeries_init cr s lo hi = Inr ts"
  using assms
  by (auto simp add: from_dataframe_def bind_err_def split: sum.splits prod.splits)

text \<open>With no bound column selected the factory is the positional construction.\<close>

lemma from_dataframe_values_only:
  "from_dataframe cr parse nan df time_col value_col None None
     = from_dataframe_spec cr parse df time_col value_col None None"
  by (simp add: from_dataframe_def from_dataframe_spec_def from_dataframe_series_def
      from_dataframe_series_spec_def reindexed_column_def positional_column_def)

section \<open>Duration, length and frequency of a constructed series\<close>

lemma init_duration:
  assumes "TimeSeries_init cr s lo hi = Inr ts" "freq ts = Inr f" "duration ts = Inr d"
    and "list_all exact_tick (gaps (time_index ts))"
  shows "d = int (len ts - 1) * f"
proof -
  let ?ix = "index (TS_series ts)"
  from assms(2) have tick: "TS_freq ts = Tick f"
    by (cases "TS_freq ts") (simp_all add: freq_def to_timedelta_def split: if_splits)
  from init_Inr(1,3) [OF assms(1)] have ne: "?ix \<noteq> []"
    by (simp flip: length_greater_0_conv)
  from ne have st: "start_time ts = Inr (hd ?ix)"
    by (cases ?ix) (simp_all add: start_time_def)
  from ne have et: "end_time ts = Inr (last ?ix)"
    by (cases "rev ?ix") (simp_all add: end_time_def flip: hd_rev)
  from assms(3) st et have d: "d = last ?ix - hd ?ix" and fits: "in_int64 (last ?ix - hd ?ix)"
    by (simp_all add: duration_def bind_err_def timestamp_sub_def split: if_splits)
  have "sorted ?ix"
    using init_Inr(1) [OF assms(1)] sorted_index_sort [of s] by simp
  with init_Inr(1,2) [OF assms(1)] tick fits assms(4) have "regular f ?ix"
    using tick_regular [of cr ?ix f] by (simp add: time_index_def)
  with ne d show ?thesis
    by (simp add: regular_span len_def)
qed


section \<open>Copies and references\<close>

lemma series_in_append:
  "so_values s < length h \<Longrightarrow> series_in (h @ [b]) s = series_in h s"
  by (simp add: series_in_def nth_append)

text \<open>A write through a copy of any Series leaves the state of the object as it was.\<close>

lemma copy_protects:
  assumes "allocated h self" "series_copy h s = (c, h')"
    and "ndarray_setitem h' (so_values c) i v = Inr h''"
  shows "stored h'' self = stored h self"
proof -
  from assms(2) have c: "so_values c = length h" "h' = h @ [h ! so_values s]"
    by (auto simp add: series_copy_def)
  with assms(3) have h'': "h'' = (h @ [h ! so_values s])[length h := (h' ! length h)[i := v]]"
    by (auto simp add: ndarray_setitem_def split: if_splits)
  have "map_option (series_in h'') (obj_confidence_lo self)
      = map_option (series_in h) (obj_confidence_lo self)"
    using assms(1)
    by (cases "obj_confidence_lo self") (simp_all add: allocated_def h'' series_in_append)
  moreover have "map_option (series_in h'') (obj_confidence_hi self)
      = map_option (series_in h) (obj_confidence_hi self)"
    using assms(1)
    by (cases "obj_confidence_hi self") (simp_all add: allocated_def h'' series_in_append)
  moreover have "series_in h'' (obj_series self) = series_in h (obj_series self)"
    using assms(1) by (simp add: allocated_def h'' series_in_append)
  ultimately show ?thesis by (simp add: stored_def)
qed

lemma pd_series_obj_is_copy:
  assumes "allocated h self" "pd_series_obj h self = (c, h')"
    and "ndarray_setitem h' (so_values c) i v = Inr h''"
  shows "stored h'' self = stored h self"
  using copy_protects [OF assms(1) assms(2) [unfolded pd_series_obj_def] assms(3)] .

lemma conf_lo_pd_series_obj_is_copy:
  assumes "allocated h self" "conf_lo_pd_series_obj h self = (Some c, h')"
    and "ndarray_setitem h' (so_values c) i v = Inr h''"
  shows "stored h'' self = stored h self"
proof -
  from assms(2) obtain s where "series_copy h s = (c, h')"
    by (auto simp add: conf_lo_pd_series_obj_def optional_copy_def
        split: option.splits prod.splits)
  from copy_protects [OF assms(1) this assms(3)] show ?thesis .
qed

lemma conf_hi_pd_series_obj_is_copy:
  assumes "allocated h self" "conf_hi_pd_series_obj h self = (Some c, h')"
    and "ndarray_setitem h' (so_values c) i v = Inr h''"
  shows "stored h'' self = stored h self"
proof -
  from assms(2) obtain s where "series_copy h s = (c, h')"
    by (auto simp add: conf_hi_pd_series_obj_def optional_copy_def
        split: option.splits prod.splits)
  from copy_protects [OF assms(1) this assms(3)] show ?thesis .
qed

section \<open>The claims\<close>

subsection \<open>C1: slice\<close>

text \<open>
  Claim C1: for every valid TimeSeries and every start and end that satisfy the
  preconditions of \<open>slice\<close>, \<open>slice(start, end)\<close> returns the rows whose timestamp lies in
  the closed interval; the daily series 01-01..01-05 with values 1..5, sliced from 01-02
  to 01-04, yields the values 2, 3, 4.

  The code does not: the second mask of \<open>_slice_not_none\<close> reads \<open>s_a.indey\<close>, an
  attribute no Series has, so every call that passes the three assertions raises
  AttributeError (lemma \<open>slice_raises\<close>), and no call returns (\<open>slice_not_Inr\<close>). The
  theorem runs the code on the series of the claim.
\<close>

theorem slice_daily5_raises:
  "TimeSeries_init no_calendar_rules daily5 None None = Inr daily5_ts
   \<and> slice no_calendar_rules daily5_ts (jan2020 2) (jan2020 4) = Inl AttributeError"
  by code_simp

subsection \<open>C2: the alignment test of a combination\<close>

text \<open>
  Claim C2: an elementwise combination of two TimeSeries succeeds exactly when their
  timestamp sequences are equal, and the alignment test is a comparison of the two
  sequences reduced to one boolean.

  The code asserts \<open>other.time_index() == self.time_index()\<close>, whose value is the
  elementwise array: on the daily series combined with itself (equal sequences) the test
  is an array of five booleans, and the assertion raises ValueError whatever the
  combining function is. Lemma \<open>combine_raises\<close> has it for any two constructed
  operands.
\<close>

theorem combine_equal_index_raises:
  "has_same_time_as daily5_ts daily5_ts = Inr [True, True, True, True, True]
   \<and> combine_from_pd_ops no_calendar_rules daily5_ts daily5_ts combine_fn = Inl ValueError"
  by (simp add: combine_from_pd_ops_def has_same_time_as_def time_index_def index_eq_def
      daily5_ts_def daily5_def index_def bind_err_def py_assert_array_def)

subsection \<open>C3: the spacing check of the constructor\<close>




subsection \<open>C4: split\<close>

text \<open>
  Claim C4: for a timestamp \<open>ts\<close> of the series other than the last, \<open>split(ts)\<close> returns
  \<open>slice(start_time(), ts)\<close> and \<open>slice(ts + freq(), end_time())\<close>, two disjoint series
  whose lengths add up to the length of the original.

  The code calls \<open>slice\<close> twice, and \<open>slice\<close> never returns (\<open>slice_not_Inr\<close>,
  \<open>split_not_Inr\<close>): on the daily series of five rows, split at 01-03, the first call
  raises AttributeError.
\<close>

theorem split_daily5_raises:
  "jan2020 3 \<in> set (time_index daily5_ts)
   \<and> end_time daily5_ts = Inr (jan2020 5)
   \<and> split no_calendar_rules daily5_ts (jan2020 3) = Inl AttributeError"
  by code_simp

subsection \<open>C5: the index check of a confidence series\<close>

text \<open>
  Claim C5: the constructor rejects a supplied confidence series exactly when its
  timestamps differ from those of the main series, by a comparison collapsed to one
  boolean.

  The code asserts \<open>self._confidence_lo.index == self._series.index\<close>, the elementwise
  array: a confidence series with the very timestamps of the main series is rejected,
  with ValueError, as a lower and as an upper bound. Lemma \<open>init_Inr\<close> has it in general:
  the constructor returns only when both bounds are None.
\<close>

theorem confidence_same_index_raises:
  "TimeSeries_init no_calendar_rules daily5 (Some daily5) None = Inl ValueError
   \<and> TimeSeries_init no_calendar_rules daily5 None (Some daily5) = Inl ValueError"
  by code_simp

subsection \<open>C6: split at the first timestamp\<close>

text \<open>
  Claim C6: for a TimeSeries of length two or more, \<open>split(start_time())\<close> succeeds and
  its first result has length one.

  On the daily series of five rows the call fails, with the first assertion of \<open>slice\<close>.
\<close>

theorem split_at_start_daily5:
  "TimeSeries_init no_calendar_rules daily5 None None = Inr daily5_ts
   \<and> 2 \<le> len daily5_ts
   \<and> start_time daily5_ts = Inr (jan2020 1)
   \<and> split no_calendar_rules daily5_ts (jan2020 1)
       = Inl (AssertionError
           ''End timestamp must be strictly after start timestamp when slicing'')"
  by code_simp

text \<open>
  Claim C6, amended: for every TimeSeries, \<open>split(start_time())\<close> fails. It computes
  \<open>start_time() + freq()\<close> first, so it fails with the error of \<open>freq()\<close> when the
  frequency is not a fixed duration, and with the overflow of the sum when that is
  outside the range of timestamps; in every other case it fails in its first half,
  \<open>slice(start_time(), start_time())\<close>, with the assertion of \<open>slice\<close> that the end of the
  range is strictly after its start.
\<close>

theorem split_at_start_time_fails:
  assumes "start_time self = Inr t"
  shows "split cr self t =
     (case freq self of
        Inl e \<Rightarrow> Inl e
      | Inr f \<Rightarrow>
          if in_int64 (t + f)
          then Inl (AssertionError
                 ''End timestamp must be strictly after start timestamp when slicing'')
          else Inl OverflowError)"
proof -
  have "t \<in> set (index (TS_series self))"
    using assms(1) by (auto simp add: start_time_def split: list.splits)
  moreover have "slice cr self t t = Inl (AssertionError
      ''End timestamp must be strictly after start timestamp when slicing'')"
    by (simp add: slice_def bind_err_def py_assert_def)
  ultimately show ?thesis
    using assms
    by (simp add: split_def bind_err_def py_assert_def timestamp_add_def split: sum.splits)
qed

text \<open>Claim C6, amended, on the daily series of five rows.\<close>

theorem split_at_start_time_fails_witness:
  "start_time daily5_ts = Inr (jan2020 1)
   \<and> freq daily5_ts = Inr ONE_DAY
   \<and> in_int64 (jan2020 1 + ONE_DAY)
   \<and> split pandas_rules daily5_ts (jan2020 1)
       = Inl (AssertionError
           ''End timestamp must be strictly after start timestamp when slicing'')"
proof -
  have a: "start_time daily5_ts = Inr (jan2020 1)" by code_simp
  have b: "freq daily5_ts = Inr ONE_DAY" by code_simp
  have c: "in_int64 (jan2020 1 + ONE_DAY)" by code_simp
  from split_at_start_time_fails [OF a, of pandas_rules] a b c show ?thesis by simp
qed

subsection \<open>C7: the confidence bounds of a combination\<close>

text \<open>
  Claim C7: the result of a combination carries a confidence bound exactly when both
  operands carry it, and then the bound is the combination of the two bounds.

  The helper \<open>_combine_or_none\<close> computes that (lemma \<open>combine_or_none_Some\<close>), but no
  combination reaches it with a result to attach it to: every operand the constructor
  returns has no bound at all, and the combination of any two such operands raises
  ValueError in the alignment assertion (the defect of C2).
\<close>

theorem combination_returns_nothing:
  assumes "TimeSeries_init cr s lo hi = Inr a" "TimeSeries_init cr s' lo' hi' = Inr b"
  shows "TS_confidence_lo a = None \<and> TS_confidence_hi a = None
    \<and> TS_confidence_lo b = None \<and> TS_confidence_hi b = None
    \<and> combine_from_pd_ops cr a b combine_fn = Inl ValueError"
  using init_Inr(6,7) [OF assms(1)] init_Inr(6,7) [OF assms(2)] combine_raises [OF assms]
  by simp

text \<open>Claim C7, on the daily series of five rows added to itself.\<close>

theorem combination_returns_nothing_witness:
  "TimeSeries_init no_calendar_rules daily5 None None = Inr daily5_ts
   \<and> TS_confidence_lo daily5_ts = None \<and> TS_confidence_hi daily5_ts = None
   \<and> combine_from_pd_ops no_calendar_rules daily5_ts daily5_ts (elementwise (+))
       = Inl ValueError"
  using combination_returns_nothing [OF daily5_constructs daily5_constructs, of "elementwise (+)"]
    daily5_constructs
  by simp

subsection \<open>C8: from_dataframe\<close>

text \<open>
  Claim C8: \<open>from_dataframe\<close> zips the parsed timestamps positionally with the value
  column and with each selected bound column and calls the constructor, so it equals the
  construction from those positionally paired arrays.

  The value column is paired positionally (\<open>df[value_col].values\<close>), a bound column is
  not: \<open>pd.Series(df[conf_lo_col], index=times)\<close> reindexes the column by label. On a
  frame with the default row numbers no timestamp is a row label, and the lower bound the
  code builds holds the missing value in every row, where the positional pairing holds
  the column. On a frame with a repeated row label and an irregular time column the two
  outcomes differ: the code raises ValueError while reindexing, the positional
  construction fails the assertion of the frequency.
\<close>

theorem from_dataframe_reindexes_bounds:
  "from_dataframe_series epoch_ns NaN frame3 ''time'' ''value'' (Some ''lo'') None
     = Inr ([(jan2020 1, Num 1), (jan2020 2, Num 2), (jan2020 3, Num 3)],
            Some [(jan2020 1, NaN), (jan2020 2, NaN), (jan2020 3, NaN)], None)
   \<and> from_dataframe_series_spec epoch_ns frame3 ''time'' ''value'' (Some ''lo'') None
     = Inr ([(jan2020 1, Num 1), (jan2020 2, Num 2), (jan2020 3, Num 3)],
            Some [(jan2020 1, Num 0), (jan2020 2, Num 1), (jan2020 3, Num 2)], None)
   \<and> from_dataframe no_calendar_rules epoch_ns NaN frame_dup ''time'' ''value'' (Some ''lo'') None
     = Inl ValueError
   \<and> from_dataframe_spec no_calendar_rules epoch_ns frame_dup ''time'' ''value'' (Some ''lo'') None
     = Inl (AssertionError ''Could not infer frequency. Are some dates missing?'')"
  by code_simp

subsection \<open>C9: what the accessors hand out\<close>

text \<open>
  Claim C9: every accessor returns a copy of the internal state, so a write to what an
  accessor returned leaves the stored timestamps, values and bounds unchanged.

  \<open>pd_series\<close> and the two confidence accessors copy (lemmas \<open>pd_series_obj_is_copy\<close>,
  \<open>conf_lo_pd_series_obj_is_copy\<close>, \<open>conf_hi_pd_series_obj_is_copy\<close>). \<open>values\<close> returns
  \<open>self._series.values\<close>, the buffer of the stored Series: a write to its first element
  changes the values the object holds.
\<close>

theorem values_exposes_buffer:
  "values_of (TS_series (stored store3 obj3)) = [1, 2, 3 :: int]
   \<and> ndarray_setitem store3 (values_obj obj3) 0 99 = Inr [[99, 2, 3]]
   \<and> values_of (TS_series (stored [[99, 2, 3]] obj3)) = [99, 2, 3 :: int]"
  by code_simp

subsection \<open>C10: duration, length and frequency\<close>

text \<open>
  Claim C10: for every constructed TimeSeries, \<open>duration()\<close> equals \<open>length - 1\<close> times
  \<open>freq()\<close>.

  Three series the constructor returns, on which the relation fails. Three rows a week
  apart get the weekly frequency anchored on Wednesday; their duration is fourteen days,
  and \<open>freq()\<close> raises ValueError: a weekly offset is not a fixed duration for
  \<open>pd.to_timedelta\<close>. Three rows 100000 days apart have that frequency, and
  \<open>duration()\<close> raises: twice the gap is no Timedelta. Three rows \<open>2 ^ 53 + 1\<close>
  nanoseconds apart have the duration \<open>2 ^ 54 + 2\<close>, and \<open>freq()\<close> is \<open>2 ^ 53\<close>: the count
  of the frequency went through a double.
\<close>

theorem duration_freq_counterexample:
  "TimeSeries_init pandas_rules weekly3 None None = Inr weekly3_ts
   \<and> regular (7 * ONE_DAY) (time_index weekly3_ts)
   \<and> duration weekly3_ts = Inr (14 * ONE_DAY)
   \<and> freq weekly3_ts = Inl ValueError
   \<and> TimeSeries_init pandas_rules far3 None None = Inr far3_ts
   \<and> freq far3_ts = Inr (100000 * ONE_DAY)
   \<and> list_all exact_tick (gaps (time_index far3_ts))
   \<and> duration far3_ts = Inl OverflowError
   \<and> TimeSeries_init pandas_rules odd3 None None = Inr odd3_ts
   \<and> len odd3_ts = 3
   \<and> freq odd3_ts = Inr (2 ^ 53)
   \<and> duration odd3_ts = Inr (2 ^ 54 + 2)"
  by code_simp

text \<open>
  Claim C10, amended: for every TimeSeries returned by the constructor or by one of the
  two factories, if \<open>freq()\<close> and \<open>duration()\<close> both return, and every gap and its count
  go through the doubles unchanged, then \<open>duration()\<close> equals \<open>length - 1\<close> times
  \<open>freq()\<close>.
\<close>

theorem duration_is_steps_times_freq:
  assumes "TimeSeries_init cr s lo hi = Inr ts
      \<or> from_times_and_values cr tstamps vals clo chi = Inr ts
      \<or> from_dataframe cr parse nan df time_col value_col lo_col hi_col = Inr ts"
    and "freq ts = Inr f" "duration ts = Inr d"
    and "list_all exact_tick (gaps (time_index ts))"
  shows "d = int (len ts - 1) * f"
proof -
  from assms(1) obtain s' lo' hi' where "TimeSeries_init cr s' lo' hi' = Inr ts"
    using from_times_and_values_init [of cr tstamps vals clo chi ts]
      from_dataframe_init [of cr parse nan df time_col value_col lo_col hi_col ts]
    by blast
  from init_duration [OF this assms(2-4)] show ?thesis .
qed

text \<open>
  Claim C10, amended, on the daily series of five rows (four days), built by the
  constructor, by \<open>from_times_and_values\<close> and by \<open>from_dataframe\<close>.
\<close>

theorem duration_is_steps_times_freq_witness:
  "TimeSeries_init pandas_rules daily5 None None = Inr daily5_ts
   \<and> from_times_and_values pandas_rules (index daily5) (values_of daily5) None None
       = Inr daily5_ts
   \<and> from_dataframe pandas_rules epoch_ns NaN frame3 ''time'' ''value'' None None
       = Inr frame3_ts
   \<and> freq daily5_ts = Inr ONE_DAY \<and> freq frame3_ts = Inr ONE_DAY
   \<and> list_all exact_tick (gaps (time_index daily5_ts))
   \<and> list_all exact_tick (gaps (time_index frame3_ts))
   \<and> duration daily5_ts = Inr (4 * ONE_DAY) \<and> duration frame3_ts = Inr (2 * ONE_DAY)
   \<and> 4 * ONE_DAY = int (len daily5_ts - 1) * ONE_DAY
   \<and> 2 * ONE_DAY = int (len frame3_ts - 1) * ONE_DAY"
proof -
  have c: "TimeSeries_init pandas_rules daily5 None None = Inr daily5_ts"
    by (rule daily5_constructs_pandas)
  have v: "from_times_and_values pandas_rules (index daily5) (values_of daily5) None None
      = Inr daily5_ts"
    by code_simp
  have d: "from_dataframe pandas_rules epoch_ns NaN frame3 ''time'' ''value'' None None
      = Inr frame3_ts"
    by code_simp
  have f: "freq daily5_ts = Inr ONE_DAY" "freq frame3_ts = Inr ONE_DAY"
    by code_simp+
  have e: "list_all exact_tick (gaps (time_index daily5_ts))"
    "list_all exact_tick (gaps (time_index frame3_ts))"
    by code_simp+
  have u: "duration daily5_ts = Inr (4 * ONE_DAY)" "duration frame3_ts = Inr (2 * ONE_DAY)"
    by code_simp+
  have t1: "4 * ONE_DAY = int (len daily5_ts - 1) * ONE_DAY"
    using duration_is_steps_times_freq [of pandas_rules daily5 None None daily5_ts,
        OF disjI1 [OF c] f(1) u(1) e(1)] .
  have t2: "4 * ONE_DAY = int (len daily5_ts - 1) * ONE_DAY"
    using duration_is_steps_times_freq [OF disjI2 [OF disjI1 [OF v]] f(1) u(1) e(1)] .
  have t3: "2 * ONE_DAY = int (len frame3_ts - 1) * ONE_DAY"
    using duration_is_steps_times_freq [OF disjI2 [OF disjI2 [OF d]] f(2) u(2) e(2)] .
  from c v d f e u t1 t3 show ?thesis by blast
qed

end
